theory Spec2Isabelle
  imports Main
begin

section \<open>JavaScript values as the sync script sees them\<close>

text \<open>
  The frontmatter bag that gray-matter hands to the script is untyped: a value is
  undefined (missing key), null, a boolean, a number, a string, a Date (an unquoted
  YAML date), an array or a nested object. Numbers are restricted to integers here;
  strings are lists of 8-bit characters.
\<close>

datatype jsval =
    JUndefined
  | JNull
  | JBool bool
  | JNum int
  | JStr string
  | JDate int
  | JArr "jsval list"
  | JObj "(string \<times> jsval) list"

text \<open>A thrown JavaScript error: its \<open>name\<close> and its \<open>message\<close>.\<close>

datatype js_error = JsError (err_name: string) (err_message: string)

text \<open>\<open>new Error(msg)\<close>: the name of a plain Error is always \<open>Error\<close>.\<close>

definition new_Error :: "string \<Rightarrow> js_error" where
  "new_Error msg = JsError ''Error'' msg"

text \<open>JavaScript truthiness (\<open>Boolean(v)\<close>, \<open>if (v)\<close>, \<open>!v\<close>).\<close>

fun truthy :: "jsval \<Rightarrow> bool" where
  "truthy JUndefined = False"
| "truthy JNull = False"
| "truthy (JBool b) = b"
| "truthy (JNum n) = (n \<noteq> 0)"
| "truthy (JStr s) = (s \<noteq> [])"
| "truthy (JDate t) = True"
| "truthy (JArr xs) = True"
| "truthy (JObj kvs) = True"

text \<open>Property access \<open>v?.k\<close>: undefined on anything that is not an object with that key.\<close>

fun js_prop :: "jsval \<Rightarrow> string \<Rightarrow> jsval" where
  "js_prop (JObj kvs) k = (case map_of kvs k of None \<Rightarrow> JUndefined | Some v \<Rightarrow> v)"
| "js_prop v k = JUndefined"

text \<open>The frontmatter data object: \<open>fm.k\<close> is \<open>get fm k\<close>, \<open>k in fm\<close> is \<open>has fm k\<close>.\<close>

type_synonym frontmatter = "string \<rightharpoonup> jsval"

definition get :: "frontmatter \<Rightarrow> string \<Rightarrow> jsval" where
  "get fm k = (case fm k of None \<Rightarrow> JUndefined | Some v \<Rightarrow> v)"

definition has :: "frontmatter \<Rightarrow> string \<Rightarrow> bool" where
  "has fm k = (fm k \<noteq> None)"

subsection \<open>Conversion to string\<close>

fun string_of_nat :: "nat \<Rightarrow> string" where
  "string_of_nat n =
     (if n < 10 then [''0123456789'' ! n]
      else string_of_nat (n div 10) @ [''0123456789'' ! (n mod 10)])"

definition string_of_int :: "int \<Rightarrow> string" where
  "string_of_int i = (if i < 0 then CHR ''-'' # string_of_nat (nat (- i)) else string_of_nat (nat i))"

fun join_with :: "string \<Rightarrow> string list \<Rightarrow> string" where
  "join_with sep [] = []"
| "join_with sep [x] = x"
| "join_with sep (x # y # ys) = x @ sep @ join_with sep (y # ys)"

text \<open>
  \<open>String(v)\<close>. The text of a Date depends on the host's time zone, so it is the
  parameter \<open>ds\<close>. \<open>js_join\<close> is \<open>Array.prototype.join\<close>: null and undefined
  elements give the empty string.
\<close>

fun js_String :: "(int \<Rightarrow> string) \<Rightarrow> jsval \<Rightarrow> string"
  and js_elems :: "(int \<Rightarrow> string) \<Rightarrow> jsval list \<Rightarrow> string list" where
  "js_String ds JUndefined = ''undefined''"
| "js_String ds JNull = ''null''"
| "js_String ds (JBool b) = (if b then ''true'' else ''false'')"
| "js_String ds (JNum n) = string_of_int n"
| "js_String ds (JStr s) = s"
| "js_String ds (JDate t) = ds t"
| "js_String ds (JArr xs) = join_with '','' (js_elems ds xs)"
| "js_String ds (JObj kvs) = ''[object Object]''"
| "js_elems ds [] = []"
| "js_elems ds (x # xs) =
     (if x = JUndefined \<or> x = JNull then [] else js_String ds x) # js_elems ds xs"

definition js_join :: "(int \<Rightarrow> string) \<Rightarrow> jsval list \<Rightarrow> string \<Rightarrow> string" where
  "js_join ds xs sep = join_with sep (js_elems ds xs)"

subsection \<open>String primitives\<close>

definition to_lower :: "char \<Rightarrow> char" where
  "to_lower c =
     (case map_of (zip ''ABCDEFGHIJKLMNOPQRSTUVWXYZ'' ''abcdefghijklmnopqrstuvwxyz'') c of
        None \<Rightarrow> c | Some d \<Rightarrow> d)"

definition toLowerCase :: "string \<Rightarrow> string" where
  "toLowerCase s = map to_lower s"

text \<open>The regular expression class \<open>\s\<close> (also what \<open>trim\<close> removes), on 8-bit characters.\<close>

definition is_space :: "char \<Rightarrow> bool" where
  "is_space c = (c \<in> set [CHR 0x09, CHR 0x0A, CHR 0x0B, CHR 0x0C, CHR 0x0D, CHR 0x20, CHR 0xA0])"

definition trim :: "string \<Rightarrow> string" where
  "trim s = rev (dropWhile is_space (rev (dropWhile is_space s)))"

definition startsWith :: "string \<Rightarrow> string \<Rightarrow> bool" where
  "startsWith s p = (take (length p) s = p)"

definition endsWith :: "string \<Rightarrow> string \<Rightarrow> bool" where
  "endsWith s p = (length p \<le> length s \<and> drop (length s - length p) s = p)"

section \<open>Pure helpers of the sync script\<close>

subsection \<open>kebab: the slug derived from a title\<close>

text \<open>
  \<open>String(str || "").trim().toLowerCase()\<close>, then three replacements: the punctuation
  class \<open>['".,!?()[\]]+\<close> is deleted, every run of \<open>[^a-z0-9]+\<close> becomes one hyphen, and
  the hyphens at both ends (\<open>^-+|-+$\<close>) are removed.
\<close>

definition is_punct :: "char \<Rightarrow> bool" where
  "is_punct c = (c \<in> set [CHR 0x27, CHR 0x22, CHR ''.'', CHR '','', CHR ''!'', CHR ''?'',
                           CHR ''('', CHR '')'', CHR ''['', CHR '']''])"

definition is_alnum :: "char \<Rightarrow> bool" where
  "is_alnum c = (c \<in> set ''abcdefghijklmnopqrstuvwxyz0123456789'')"

fun hyphenate :: "bool \<Rightarrow> string \<Rightarrow> string" where
  "hyphenate in_run [] = []"
| "hyphenate in_run (c # cs) =
     (if is_alnum c then c # hyphenate False cs
      else if in_run then hyphenate True cs
      else CHR ''-'' # hyphenate True cs)"

definition strip_hyphens :: "string \<Rightarrow> string" where
  "strip_hyphens s =
     rev (dropWhile (\<lambda>c. c = CHR ''-'') (rev (dropWhile (\<lambda>c. c = CHR ''-'') s)))"

definition kebab :: "(int \<Rightarrow> string) \<Rightarrow> jsval \<Rightarrow> string" where
  "kebab ds str =
     strip_hyphens
       (hyphenate False
          (filter (\<lambda>c. \<not> is_punct c)
             (toLowerCase (trim (js_String ds (if truthy str then str else JStr []))))))"

subsection \<open>trimToExcerpt: plain text of the rendered body, cut at max characters\<close>

text \<open>The rest of \<open>s\<close> after the first occurrence of \<open>pat\<close>, if there is one.\<close>

fun after_first :: "string \<Rightarrow> string \<Rightarrow> string option" where
  "after_first pat [] = (if pat = [] then Some [] else None)"
| "after_first pat (c # cs) =
     (if startsWith (c # cs) pat then Some (drop (length pat) (c # cs))
      else after_first pat cs)"

lemma after_first_length: "after_first pat s = Some r \<Longrightarrow> length r \<le> length s"
  by (induction s) (auto split: if_splits)

text \<open>
  \<open>replace(/OPEN[\s\S]*?CLOSE/g, "")\<close> for two fixed words: where \<open>OPEN\<close> starts and a
  \<open>CLOSE\<close> follows it, everything up to the first such \<open>CLOSE\<close> is deleted. (What
  follows a non-empty \<open>OPEN\<close> at \<open>c # cs\<close> is \<open>drop (length OPEN - 1) cs\<close>.)
\<close>

function strip_block :: "string \<Rightarrow> string \<Rightarrow> string \<Rightarrow> string" where
  "strip_block opn cls [] = []"
| "strip_block opn cls (c # cs) =
     (if startsWith (c # cs) opn then
        (case after_first cls (drop (length opn - 1) cs) of
           Some rest \<Rightarrow> strip_block opn cls rest
         | None \<Rightarrow> c # strip_block opn cls cs)
      else c # strip_block opn cls cs)"
  by pat_completeness auto
termination
proof (relation "measure (\<lambda>(opn, cls, s). length s)")
  show "wf (measure (\<lambda>(opn, cls, s). length s))" by simp
next
  fix opn cls :: string and c cs rest
  assume "after_first cls (drop (length opn - 1) cs) = Some rest"
  then have "length rest \<le> length (drop (length opn - 1) cs)"
    by (rule after_first_length)
  then show "((opn, cls, rest), (opn, cls, c # cs)) \<in> measure (\<lambda>(opn, cls, s). length s)"
    by simp
qed simp_all

text \<open>
  \<open>replace(/<[^>]+>/g, " ")\<close>: a \<open><\<close>, at least one character other than \<open>>\<close>, and
  the \<open>>\<close> that ends that run become one space.
\<close>

function strip_tags :: "string \<Rightarrow> string" where
  "strip_tags [] = []"
| "strip_tags (c # cs) =
     (if c = CHR ''<'' \<and> takeWhile (\<lambda>d. d \<noteq> CHR ''>'') cs \<noteq> []
         \<and> dropWhile (\<lambda>d. d \<noteq> CHR ''>'') cs \<noteq> []
      then CHR '' '' # strip_tags (tl (dropWhile (\<lambda>d. d \<noteq> CHR ''>'') cs))
      else c # strip_tags cs)"
  by pat_completeness auto
termination
proof (relation "measure length")
  show "wf (measure length)" by simp
next
  fix c :: char and cs :: string
  have "length (tl (dropWhile (\<lambda>d. d \<noteq> CHR ''>'') cs)) \<le> length cs"
    using length_dropWhile_le [of "\<lambda>d. d \<noteq> CHR ''>''" cs] by simp
  then show "(tl (dropWhile (\<lambda>d. d \<noteq> CHR ''>'') cs), c # cs) \<in> measure length"
    by simp
qed simp_all

text \<open>\<open>replace(/\s+/g, " ")\<close>: every run of white space becomes one space.\<close>

fun collapse_space :: "bool \<Rightarrow> string \<Rightarrow> string" where
  "collapse_space in_run [] = []"
| "collapse_space in_run (c # cs) =
     (if \<not> is_space c then c # collapse_space False cs
      else if in_run then collapse_space True cs
      else CHR '' '' # collapse_space True cs)"

definition trimToExcerpt :: "string \<Rightarrow> nat \<Rightarrow> string" where
  "trimToExcerpt html max_len =
     take max_len
       (trim
          (collapse_space False
             (strip_tags
                (strip_block ''<script'' ''</script>''
                   (strip_block ''<style'' ''</style>'' html)))))"

subsection \<open>resolveToRawUrl: a commit-pinned raw URL for a repository path\<close>

text \<open>The test \<open>/^https?:\/\//i\<close>.\<close>

definition is_http_url :: "string \<Rightarrow> bool" where
  "is_http_url s = (startsWith (toLowerCase s) ''http://'' \<or> startsWith (toLowerCase s) ''https://'')"

text \<open>
  \<open>repo\<close> is the environment's \<open>GITHUB_REPOSITORY || GH_REPOSITORY\<close> (empty when unset),
  \<open>sha\<close> is \<open>GITHUB_SHA || "main"\<close>. The replacement \<open>/^\.?\//\<close> drops one leading
  \<open>./\<close> or \<open>/\<close>.
\<close>

definition resolveToRawUrl :: "string \<Rightarrow> string \<Rightarrow> string \<Rightarrow> string" where
  "resolveToRawUrl repo sha filePathOrUrl =
     (if filePathOrUrl = [] then filePathOrUrl
      else if is_http_url filePathOrUrl then filePathOrUrl
      else if repo = [] then filePathOrUrl
      else ''https://raw.githubusercontent.com/'' @ repo @ ''/'' @ sha @ ''/'' @
           (if startsWith filePathOrUrl ''./'' then drop 2 filePathOrUrl
            else if startsWith filePathOrUrl ''/'' then drop 1 filePathOrUrl
            else filePathOrUrl))"

section \<open>The world around the script\<close>

text \<open>
  The item the script sends to the CMS: \<open>{ isArchived, isDraft, fieldData }\<close>. The
  object \<open>fieldData\<close> keeps its keys in insertion order; assigning to a key that is
  there replaces its value.
\<close>

record payload =
  isArchived :: bool
  isDraft :: bool
  fieldData :: "(string \<times> jsval) list"

fun assign :: "string \<Rightarrow> jsval \<Rightarrow> (string \<times> jsval) list \<Rightarrow> (string \<times> jsval) list" where
  "assign k v [] = [(k, v)]"
| "assign k v ((k', v') # kvs) = (if k' = k then (k, v) # kvs else (k', v') # assign k v kvs)"

text \<open>
  The two requests the script makes to the CMS:
  \<open>PATCH /v2/collections/COLLECTION_ID/items/encodeURIComponent(post_id)\<close> and
  \<open>POST /v2/collections/COLLECTION_ID/items\<close>, each with the payload as its body.
\<close>

datatype store_call = PATCH_item jsval payload | POST_item payload

text \<open>
  What \<open>fetch\<close> gives back: the promise rejects (no response), or there is a response
  with its status, its text and what \<open>res.json()\<close> yields (an error when the body is
  not JSON).
\<close>

datatype response = Rejected js_error | Response nat string "js_error + jsval"

definition ok :: "nat \<Rightarrow> bool" where
  "ok status = (200 \<le> status \<and> status \<le> 299)"

text \<open>A directory entry: a regular file, a directory with its entries in \<open>readdirSync\<close> order, or anything else.\<close>

datatype fsnode = File | Other | Dir "(string \<times> fsnode) list"

text \<open>
  Everything the script reads from its surroundings. \<open>'r\<close> is the state of the remote
  CMS. Environment variables that are unset are the empty string (both are falsy);
  \<open>REPO\<close> is \<open>GITHUB_REPOSITORY || GH_REPOSITORY\<close>, \<open>COMMIT_SHA\<close> is
  \<open>GITHUB_SHA || "main"\<close> and \<open>GITHUB_TOKEN\<close> is \<open>GITHUB_TOKEN || GH_TOKEN_WITH_WRITE\<close>.
  \<^item> \<open>date_string t\<close> is \<open>String(d)\<close> and \<open>date_iso v\<close> is \<open>new Date(v).toISOString()\<close>,
    \<open>None\<close> where it throws a RangeError (an invalid date);
  \<^item> \<open>now_iso r\<close> is \<open>new Date().toISOString()\<close>, the reading of the clock;
  \<^item> \<open>fetch r c\<close> is the CMS's answer to the request \<open>c\<close> and its state afterwards;
  \<^item> \<open>posts_root\<close> is what stands at \<open>POSTS_DIR\<close>, \<open>None\<close> when nothing does;
  \<^item> \<open>git_diff\<close> is the outcome of \<open>git diff --name-only HEAD~1 HEAD -- 'posts/**/*.md'\<close>;
  \<^item> \<open>readFile\<close> is \<open>fs.readFileSync(path, "utf8")\<close>, \<open>matter\<close> is gray-matter (its
    \<open>data\<close> and \<open>content\<close>), \<open>render path content\<close> is
    \<open>mdToHtml(rewriteImageLinksInMarkdown(content, path.dirname(path)))\<close>.
\<close>

record 'r env =
  REPO :: string
  COMMIT_SHA :: string
  WEBFLOW_TOKEN :: string
  WEBFLOW_COLLECTION_ID :: string
  GITHUB_TOKEN :: string
  date_string :: "int \<Rightarrow> string"
  date_iso :: "jsval \<Rightarrow> string option"
  now_iso :: "'r \<Rightarrow> string"
  fetch :: "'r \<Rightarrow> store_call \<Rightarrow> response \<times> 'r"
  posts_root :: "fsnode option"
  git_diff :: "js_error + string"
  readFile :: "string \<Rightarrow> js_error + string"
  matter :: "string \<Rightarrow> js_error + (frontmatter \<times> string)"
  render :: "string \<Rightarrow> string \<Rightarrow> js_error + string"

text \<open>
  The state a run changes: the remote CMS, the requests sent to it so far (kept to count
  them), the \<open>repository_dispatch\<close> events sent for write-back, and \<open>process.exitCode\<close>.
\<close>

record 'r world =
  remote :: 'r
  calls :: "store_call list"
  dispatched :: "(string \<times> jsval) list"
  exitCode :: nat

section \<open>Field mapping\<close>

text \<open>The field slugs of the collection (\<open>FIELD_IDS\<close>).\<close>

record field_ids =
  fid_name :: string
  fid_slug :: string
  fid_body :: string
  fid_mainImage :: string
  fid_publishDate :: string
  fid_authorText :: string
  fid_externalLink :: string
  fid_isPublished :: string
  fid_pushToWebflow :: string
  fid_postId :: string
  fid_excerpt :: string
  fid_seoTitle :: string
  fid_seoDescription :: string
  fid_tags :: string

definition FIELD_IDS :: field_ids where
  "FIELD_IDS = \<lparr>
     fid_name = ''name'',
     fid_slug = ''slug'',
     fid_body = ''post-body'',
     fid_mainImage = ''main-image'',
     fid_publishDate = ''publish-date'',
     fid_authorText = ''author'',
     fid_externalLink = ''link'',
     fid_isPublished = ''is-published'',
     fid_pushToWebflow = ''push-to-webflow'',
     fid_postId = ''post-id'',
     fid_excerpt = ''post-summary'',
     fid_seoTitle = ''seo-title'',
     fid_seoDescription = ''seo-description'',
     fid_tags = ''tags'' \<rparr>"

text \<open>
  \<open>if (KEY && cond) fieldData[KEY] = v\<close>, for a list of such statements in order.
\<close>

definition set_fields :: "(string \<times> bool \<times> jsval) list \<Rightarrow> (string \<times> jsval) list" where
  "set_fields steps =
     foldl (\<lambda>fd (k, c, v). if k \<noteq> [] \<and> c then assign k v fd else fd) [] steps"

text \<open>
  The part of \<open>upsertWebflowItem\<close> that builds \<open>fieldData\<close> from the frontmatter and
  the rendered body (after the skip and title checks), given the publish date \<open>pd\<close>.
\<close>

definition build_fieldData :: "'r env \<Rightarrow> string \<Rightarrow> frontmatter \<Rightarrow> string \<Rightarrow> (string \<times> jsval) list" where
  "build_fieldData env pd fm html =
     (let ds = date_string env;
          published = truthy (get fm ''published'');
          bodyHtml = html;
          name = js_String ds (get fm ''title'');
          slug = (if truthy (get fm ''slug'') then js_String ds (get fm ''slug'')
                  else kebab ds (get fm ''title''));
          mainImage = (if truthy (get fm ''image'')
                       then JStr (resolveToRawUrl (REPO env) (COMMIT_SHA env) (js_String ds (get fm ''image'')))
                       else JUndefined);
          author = (if truthy (get fm ''author'') then JStr (js_String ds (get fm ''author'')) else JUndefined);
          externalLink = (if truthy (get fm ''link'') then JStr (js_String ds (get fm ''link'')) else JUndefined);
          tags = (case get fm ''tags'' of
                    JArr xs \<Rightarrow> JStr (js_join ds xs '', '')
                  | v \<Rightarrow> if truthy v then JStr (js_String ds v) else JUndefined);
          excerpt = (if truthy (get fm ''excerpt'') then JStr (js_String ds (get fm ''excerpt''))
                     else JStr (trimToExcerpt bodyHtml 160));
          seoTitle = js_prop (get fm ''seo'') ''title'';
          seoDescription = js_prop (get fm ''seo'') ''description''
      in set_fields
           [(fid_name FIELD_IDS, True, JStr name),
            (fid_slug FIELD_IDS, True, JStr slug),
            (fid_body FIELD_IDS, True, JStr bodyHtml),
            (fid_mainImage FIELD_IDS, truthy mainImage, mainImage),
            (fid_publishDate FIELD_IDS, True, JStr pd),
            (fid_authorText FIELD_IDS, truthy author, author),
            (fid_externalLink FIELD_IDS, truthy externalLink, externalLink),
            (fid_isPublished FIELD_IDS, True, JBool published),
            (fid_pushToWebflow FIELD_IDS, True, JBool True),
            (fid_postId FIELD_IDS, truthy (get fm ''post_id''),
               JStr (js_String ds (get fm ''post_id''))),
            (fid_tags FIELD_IDS, truthy tags, tags),
            (fid_excerpt FIELD_IDS, truthy excerpt, excerpt),
            (fid_seoTitle FIELD_IDS, truthy seoTitle, seoTitle),
            (fid_seoDescription FIELD_IDS, truthy seoDescription, seoDescription)])"

text \<open>
  The publish date, \<open>fm.date ? new Date(fm.date).toISOString() : new Date().toISOString()\<close>,
  where \<open>now\<close> is the clock's reading; \<open>None\<close> when \<open>toISOString\<close> throws its RangeError.
\<close>

definition publishDate :: "'r env \<Rightarrow> string \<Rightarrow> frontmatter \<Rightarrow> string option" where
  "publishDate env now fm =
     (if truthy (get fm ''date'') then date_iso env (get fm ''date'') else Some now)"

text \<open>
  The payload \<open>{ isArchived: false, isDraft: !published, fieldData }\<close>. The publish date is
  the only statement on the way that can throw.
\<close>

definition build_payload :: "'r env \<Rightarrow> string \<Rightarrow> frontmatter \<Rightarrow> string \<Rightarrow> js_error + payload" where
  "build_payload env now fm html =
     (case publishDate env now fm of
        None \<Rightarrow> Inl (JsError ''RangeError'' ''Invalid time value'')
      | Some pd \<Rightarrow>
          Inr \<lparr> isArchived = False,
                isDraft = (\<not> truthy (get fm ''published'')),
                fieldData = build_fieldData env pd fm html \<rparr>)"

section \<open>Reconciliation: upsertWebflowItem\<close>

text \<open>
  How a call of \<open>upsertWebflowItem\<close> ends when it does not throw: it returned early for a
  document that is not to be pushed, it logged a dry run (the payload it built and
  \<open>hasPostId\<close>), or it returned the CMS's \<open>data\<close> after an update or a create. A throw is the \<open>Inl\<close> of the result.
\<close>

datatype upsert_result = Skipped | DryRun payload bool | Updated jsval | Created jsval

text \<open>
  \<open>dispatchWriteback\<close>: without a token, a repository or an item id nothing is sent;
  otherwise a \<open>repository_dispatch\<close> event with the path and the item id goes to GitHub.
  Its failure is caught by the caller and only logged.
\<close>

definition dispatchWriteback :: "'r env \<Rightarrow> string \<Rightarrow> jsval \<Rightarrow> 'r world \<Rightarrow> 'r world" where
  "dispatchWriteback env filePath itemId w =
     (if GITHUB_TOKEN env = [] \<or> REPO env = [] \<or> \<not> truthy itemId then w
      else w\<lparr>dispatched := dispatched w @ [(filePath, itemId)]\<rparr>)"

text \<open>Sending one request: the CMS answers and moves on, and the request is counted.\<close>

definition send :: "'r env \<Rightarrow> store_call \<Rightarrow> 'r world \<Rightarrow> response \<times> 'r world" where
  "send env c w =
     (case fetch env (remote w) c of
        (res, r') \<Rightarrow> (res, w\<lparr>remote := r', calls := calls w @ [c]\<rparr>))"

definition upsertWebflowItem ::
    "'r env \<Rightarrow> frontmatter \<Rightarrow> string \<Rightarrow> string \<Rightarrow> bool \<Rightarrow> 'r world
       \<Rightarrow> (js_error + upsert_result) \<times> 'r world" where
  "upsertWebflowItem env fm html filePath dryRun w =
     (let pushFlag = (get fm ''push_to_webflow'' \<noteq> JBool False)
      in if \<not> pushFlag then (Inr Skipped, w)
      else if \<not> truthy (get fm ''title'')
        then (Inl (new_Error (''Missing required 'title' in '' @ filePath)), w)
      else
        (case build_payload env (now_iso env (remote w)) fm html of
           Inl e \<Rightarrow> (Inl e, w)
         | Inr payload \<Rightarrow>
             if dryRun
               then (Inr (DryRun payload (truthy (get fm ''post_id''))), w)
             else if truthy (get fm ''post_id'') then
               (case send env (PATCH_item (get fm ''post_id'') payload) w of
                  (Rejected e, w') \<Rightarrow> (Inl e, w')
                | (Response status text json, w') \<Rightarrow>
                    if \<not> ok status
                      then (Inl (new_Error (''Webflow update failed ('' @ string_of_nat status @ ''): '' @ text)), w')
                    else
                      (case json of
                         Inl e \<Rightarrow> (Inl e, w')
                       | Inr data \<Rightarrow>
                           if data = JNull
                             then (Inl (JsError ''TypeError'' ''Cannot read properties of null''), w')
                           else (Inr (Updated data), w')))
             else
               (case send env (POST_item payload) w of
                  (Rejected e, w') \<Rightarrow> (Inl e, w')
                | (Response status text json, w') \<Rightarrow>
                    if \<not> ok status
                      then (Inl (new_Error (''Webflow create failed ('' @ string_of_nat status @ ''): '' @ text)), w')
                    else
                      (case json of
                         Inl e \<Rightarrow> (Inl e, w')
                       | Inr data \<Rightarrow>
                           let itemId = (if truthy (js_prop data ''id'') then js_prop data ''id''
                                         else js_prop (js_prop data ''item'') ''id'')
                           in if data = JNull
                             then (Inl (JsError ''TypeError'' ''Cannot read properties of null''), w')
                           else (Inr (Created data), dispatchWriteback env filePath itemId w')))))"

section \<open>One file: processFile\<close>

text \<open>The test \<open>/^(true|yes|1)$/i\<close> on a string.\<close>

definition is_true_word :: "string \<Rightarrow> bool" where
  "is_true_word v = (toLowerCase v \<in> set [''true'', ''yes'', ''1''])"

text \<open>
  The body of the \<open>forEach\<close> over \<open>["published", "push_to_webflow"]\<close>: a key that is
  present with a string value gets the boolean of the test; anything else is left as it is.
\<close>

definition normalize_boolean :: "string \<Rightarrow> frontmatter \<Rightarrow> frontmatter" where
  "normalize_boolean k fm =
     (if has fm k then
        (case get fm k of JStr v \<Rightarrow> fm(k \<mapsto> JBool (is_true_word v)) | _ \<Rightarrow> fm)
      else fm)"

definition normalize_booleans :: "frontmatter \<Rightarrow> frontmatter" where
  "normalize_booleans fm = normalize_boolean ''push_to_webflow'' (normalize_boolean ''published'' fm)"

definition processFile ::
    "'r env \<Rightarrow> string \<Rightarrow> bool \<Rightarrow> 'r world \<Rightarrow> (js_error + upsert_result) \<times> 'r world" where
  "processFile env filePath dryRun w =
     (case readFile env filePath of
        Inl e \<Rightarrow> (Inl e, w)
      | Inr src \<Rightarrow>
          (case matter env src of
             Inl e \<Rightarrow> (Inl e, w)
           | Inr (data, content) \<Rightarrow>
               (case render env filePath content of
                  Inl e \<Rightarrow> (Inl e, w)
                | Inr html \<Rightarrow>
                    upsertWebflowItem env (normalize_booleans data) html filePath dryRun w)))"

section \<open>Which files: getAllMarkdown and getChangedMarkdown\<close>

text \<open>\<open>walk(dir)\<close> over the entries of \<open>dir\<close>; \<open>path.join(dir, name)\<close> is \<open>dir/name\<close>.\<close>

fun walk :: "string \<Rightarrow> (string \<times> fsnode) list \<Rightarrow> string list" where
  "walk dir [] = []"
| "walk dir ((name, Dir sub) # ents) = walk (dir @ ''/'' @ name) sub @ walk dir ents"
| "walk dir ((name, File) # ents) =
     (if endsWith (dir @ ''/'' @ name) ''.md'' then [dir @ ''/'' @ name] else []) @ walk dir ents"
| "walk dir ((name, Other) # ents) = walk dir ents"

definition POSTS_DIR :: string where
  "POSTS_DIR = ''posts''"

text \<open>
  \<open>fs.existsSync(POSTS_DIR) ? walk(POSTS_DIR) : []\<close>. When \<open>POSTS_DIR\<close> exists and is
  not a directory, \<open>readdirSync\<close> throws.
\<close>

definition getAllMarkdown :: "'r env \<Rightarrow> js_error + string list" where
  "getAllMarkdown env =
     (case posts_root env of
        None \<Rightarrow> Inr []
      | Some (Dir ents) \<Rightarrow> Inr (walk POSTS_DIR ents)
      | Some _ \<Rightarrow> Inl (JsError ''Error'' ''ENOTDIR: not a directory, scandir 'posts' ''))"

fun split_on :: "char \<Rightarrow> string \<Rightarrow> string list" where
  "split_on sep [] = [[]]"
| "split_on sep (c # cs) =
     (if c = sep then [] # split_on sep cs
      else (case split_on sep cs of [] \<Rightarrow> [[c]] | x # xs \<Rightarrow> (c # x) # xs))"

text \<open>
  The \<open>git fetch\<close> before the diff is run for its effect on the checkout only (its
  failure is ignored). When the diff succeeds its output is split into lines, trimmed,
  and the empty lines are dropped; when it throws, the result is \<open>getAllMarkdown()\<close>.
\<close>

definition getChangedMarkdown :: "'r env \<Rightarrow> js_error + string list" where
  "getChangedMarkdown env =
     (case git_diff env of
        Inr diff \<Rightarrow> Inr (filter (\<lambda>s. s \<noteq> []) (map trim (split_on (CHR 0x0A) diff)))
      | Inl e \<Rightarrow> getAllMarkdown env)"

section \<open>The run: main\<close>

text \<open>\<open>fail(msg, e)\<close> logs and sets \<open>process.exitCode = 1\<close>.\<close>

definition fail :: "'r world \<Rightarrow> 'r world" where
  "fail w = w\<lparr>exitCode := 1\<rparr>"

text \<open>
  The loop \<open>for (const f of files) { try { await processFile(f, { dryRun }) } catch (e)
  { fail(...) } }\<close>. The list it returns pairs each file the loop reached with how
  \<open>processFile\<close> ended for it.
\<close>

fun process_files ::
    "'r env \<Rightarrow> bool \<Rightarrow> string list \<Rightarrow> 'r world
       \<Rightarrow> (string \<times> (js_error + upsert_result)) list \<times> 'r world" where
  "process_files env dryRun [] w = ([], w)"
| "process_files env dryRun (f # fs) w =
     (case processFile env f dryRun w of
        (r, w1) \<Rightarrow>
          (case process_files env dryRun fs (case r of Inl e \<Rightarrow> fail w1 | Inr v \<Rightarrow> w1) of
             (rs, w2) \<Rightarrow> ((f, r) # rs, w2)))"

text \<open>
  \<open>main\<close> with the command line's \<open>--all\<close> and \<open>--dry-run\<close>. A missing
  \<open>WEBFLOW_TOKEN\<close> or \<open>WEBFLOW_COLLECTION_ID\<close> fails the run before anything else; an
  error thrown while the files are listed reaches \<open>main().catch\<close>, which fails the run.
\<close>

definition main ::
    "'r env \<Rightarrow> bool \<Rightarrow> bool \<Rightarrow> 'r world
       \<Rightarrow> (string \<times> (js_error + upsert_result)) list \<times> 'r world" where
  "main env all dryRun w =
     (if WEBFLOW_TOKEN env = [] \<or> WEBFLOW_COLLECTION_ID env = [] then ([], fail w)
      else
        (case (if all then getAllMarkdown env else getChangedMarkdown env) of
           Inl e \<Rightarrow> ([], fail w)
         | Inr files \<Rightarrow>
             if files = [] then ([], w)
             else process_files env dryRun files w))"

section \<open>The frontmatter linter: required fields\<close>



section \<open>Example surroundings\<close>

text \<open>
  A CMS that accepts every request (its state counts the items created so far), and one
  that answers every request with the same status and text.
\<close>

definition store_accepts :: "nat \<Rightarrow> store_call \<Rightarrow> response \<times> nat" where
  "store_accepts n c =
     (case c of
        POST_item p \<Rightarrow> (Response 200 ''OK'' (Inr (JObj [(''id'', JStr (''item'' @ string_of_nat n))])), Suc n)
      | PATCH_item i p \<Rightarrow> (Response 200 ''OK'' (Inr (JObj [(''id'', i)])), n))"

definition store_refuses :: "nat \<Rightarrow> string \<Rightarrow> nat \<Rightarrow> store_call \<Rightarrow> response \<times> nat" where
  "store_refuses status text n c = (Response status text (Inr (JObj [])), n)"

text \<open>
  A checkout with two posts, no earlier revision to diff against, and a frontmatter
  parser that gives every file a title (its own text), a date and the identifier
  \<open>abc123\<close>.
\<close>

definition example_env :: "(nat \<Rightarrow> store_call \<Rightarrow> response \<times> nat) \<Rightarrow> nat env" where
  "example_env store = \<lparr>
     REPO = ''acme/site'',
     COMMIT_SHA = ''main'',
     WEBFLOW_TOKEN = ''token'',
     WEBFLOW_COLLECTION_ID = ''collection'',
     GITHUB_TOKEN = [],
     date_string = (\<lambda>t. ''Thu Jan 01 1970''),
     date_iso = (\<lambda>v. case v of JStr d \<Rightarrow> Some (d @ ''T00:00:00.000Z'') | _ \<Rightarrow> None),
     now_iso = (\<lambda>r. ''2025-11-06T12:00:00.000Z''),
     fetch = store,
     posts_root = Some (Dir [(''a.md'', File),
                             (''drafts'', Dir [(''b.md'', File), (''notes.txt'', File)]),
                             (''socket'', Other)]),
     git_diff = Inl (JsError ''Error'' ''Command failed: git diff''),
     readFile = (\<lambda>path. Inr path),
     matter = (\<lambda>src. Inr ([''title'' \<mapsto> JStr src, ''date'' \<mapsto> JStr ''2025-01-01'',
                            ''post_id'' \<mapsto> JStr ''abc123''], ''Body'')),
     render = (\<lambda>path content. Inr content) \<rparr>"

definition example_world :: "nat world" where
  "example_world = \<lparr> remote = 0, calls = [], dispatched = [], exitCode = 0 \<rparr>"

text \<open>The payload of a request, and whether a piece of text occurs in a message.\<close>

fun call_payload :: "store_call \<Rightarrow> payload" where
  "call_payload (PATCH_item i p) = p"
| "call_payload (POST_item p) = p"

fun is_POST :: "store_call \<Rightarrow> bool" where
  "is_POST (POST_item p) = True"
| "is_POST (PATCH_item i p) = False"

text \<open>The name of the error a call ended with, if it threw.\<close>

fun thrown_name :: "js_error + 'a \<Rightarrow> string option" where
  "thrown_name (Inl e) = Some (err_name e)"
| "thrown_name (Inr v) = None"


section \<open>Facts about the mapping and the reconciliation\<close>

lemma map_of_assign: "map_of (assign k v kvs) = (map_of kvs)(k \<mapsto> v)"
  by (induction kvs) (auto simp: fun_eq_iff)

lemma map_of_foldl_steps:
  "distinct (map fst steps) \<Longrightarrow> [] \<notin> fst ` set steps \<Longrightarrow>
   map_of (foldl (\<lambda>fd (k, c, v). if k \<noteq> [] \<and> c then assign k v fd else fd) fd steps) k =
     (case map_of steps k of
        Some (c, v) \<Rightarrow> if c then Some v else map_of fd k
      | None \<Rightarrow> map_of fd k)"
proof (induction steps arbitrary: fd)
  case Nil
  then show ?case by simp
next
  case (Cons s steps)
  obtain k' c' v' where s: "s = (k', c', v')" by (cases s) auto
  have notin: "map_of steps k' = None"
    using Cons.prems(1) s by (simp add: map_of_eq_None_iff)
  show ?case
    using Cons.IH[of "if k' \<noteq> [] \<and> c' then assign k' v' fd else fd"] Cons.prems s notin
    by (auto simp: map_of_assign split: option.splits)
qed

lemma map_of_set_fields:
  "distinct (map fst steps) \<Longrightarrow> [] \<notin> fst ` set steps \<Longrightarrow>
   map_of (set_fields steps) k =
     (case map_of steps k of Some (c, v) \<Rightarrow> if c then Some v else None | None \<Rightarrow> None)"
  unfolding set_fields_def by (simp add: map_of_foldl_steps split: option.splits)

lemma steps_ok:
  "distinct (map fst
     [(''name'', c1, v1), (''slug'', c2, v2), (''post-body'', c3, v3),
      (''main-image'', c4, v4), (''publish-date'', c5, v5),
      (''author'', c6, v6), (''link'', c7, v7),
      (''is-published'', c8, v8), (''push-to-webflow'', c9, v9),
      (''post-id'', c10, v10), (''tags'', c11, v11),
      (''post-summary'', c12, v12), (''seo-title'', c13, v13),
      (''seo-description'', c14, (v14::jsval))])"
  "[] \<notin> fst ` set
     [(''name'', c1, v1), (''slug'', c2, v2), (''post-body'', c3, v3),
      (''main-image'', c4, v4), (''publish-date'', c5, v5),
      (''author'', c6, v6), (''link'', c7, v7),
      (''is-published'', c8, v8), (''push-to-webflow'', c9, v9),
      (''post-id'', c10, v10), (''tags'', c11, v11),
      (''post-summary'', c12, v12), (''seo-title'', c13, v13),
      (''seo-description'', c14, (v14::jsval))]"
  by simp_all

lemma build_fieldData_lookup:
  "map_of (build_fieldData env pd fm html) ''push-to-webflow'' = Some (JBool True)"
  "map_of (build_fieldData env pd fm html) ''is-published'' = Some (JBool (truthy (get fm ''published'')))"
  "map_of (build_fieldData env pd fm html) ''publish-date'' = Some (JStr pd)"
  "map_of (build_fieldData env pd fm html) ''post-id'' =
     (if truthy (get fm ''post_id'') then Some (JStr (js_String (date_string env) (get fm ''post_id''))) else None)"
  "map_of (build_fieldData env pd fm html) ''name'' = Some (JStr (js_String (date_string env) (get fm ''title'')))"
  "map_of (build_fieldData env pd fm html) ''slug'' =
     Some (JStr (if truthy (get fm ''slug'') then js_String (date_string env) (get fm ''slug'')
                 else kebab (date_string env) (get fm ''title'')))"
  unfolding build_fieldData_def Let_def
  by (simp_all add: FIELD_IDS_def map_of_set_fields [OF steps_ok])

lemma build_payload_Inr:
  assumes "build_payload env now fm html = Inr p"
  shows "\<exists>pd. publishDate env now fm = Some pd \<and>
           p = \<lparr> isArchived = False, isDraft = (\<not> truthy (get fm ''published'')),
                 fieldData = build_fieldData env pd fm html \<rparr>"
  using assms unfolding build_payload_def by (auto split: option.splits)

lemma send_world:
  "send env c w = (res, w') \<Longrightarrow>
     calls w' = calls w @ [c] \<and> dispatched w' = dispatched w \<and> exitCode w' = exitCode w \<and>
     fetch env (remote w) c = (res, remote w')"
  unfolding send_def by (auto split: prod.splits)

lemma send_eq:
  "fetch env (remote w) c = (res, r') \<Longrightarrow>
     send env c w = (res, w\<lparr>remote := r', calls := calls w @ [c]\<rparr>)"
  unfolding send_def by simp

lemma dispatchWriteback_world:
  "calls (dispatchWriteback env filePath itemId w) = calls w"
  "remote (dispatchWriteback env filePath itemId w) = remote w"
  "exitCode (dispatchWriteback env filePath itemId w) = exitCode w"
  unfolding dispatchWriteback_def by simp_all

lemma upsert_skip:
  "get fm ''push_to_webflow'' = JBool False \<Longrightarrow>
     upsertWebflowItem env fm html filePath dryRun w = (Inr Skipped, w)"
  unfolding upsertWebflowItem_def by simp


lemma upsert_build_error:
  "get fm ''push_to_webflow'' \<noteq> JBool False \<Longrightarrow> truthy (get fm ''title'') \<Longrightarrow>
   build_payload env (now_iso env (remote w)) fm html = Inl e \<Longrightarrow>
     upsertWebflowItem env fm html filePath dryRun w = (Inl e, w)"
  unfolding upsertWebflowItem_def by simp


lemma upsert_calls:
  assumes "get fm ''push_to_webflow'' \<noteq> JBool False" and "truthy (get fm ''title'')"
    and "build_payload env (now_iso env (remote w)) fm html = Inr p"
  shows "calls (snd (upsertWebflowItem env fm html filePath False w)) =
           calls w @ [if truthy (get fm ''post_id'') then PATCH_item (get fm ''post_id'') p else POST_item p]"
proof (cases "truthy (get fm ''post_id'')")
  case True
  obtain res w' where s: "send env (PATCH_item (get fm ''post_id'') p) w = (res, w')"
    by (cases "send env (PATCH_item (get fm ''post_id'') p) w") auto
  from send_world [OF s] have c: "calls w' = calls w @ [PATCH_item (get fm ''post_id'') p]" by simp
  show ?thesis
    unfolding upsertWebflowItem_def using assms True s c
    by (simp split: response.splits sum.splits)
next
  case False
  obtain res w' where s: "send env (POST_item p) w = (res, w')"
    by (cases "send env (POST_item p) w") auto
  from send_world [OF s] have c: "calls w' = calls w @ [POST_item p]" by simp
  show ?thesis
    unfolding upsertWebflowItem_def using assms False s c
    by (simp add: Let_def dispatchWriteback_world split: response.splits sum.splits)
qed

lemma upsert_update_failed:
  assumes "get fm ''push_to_webflow'' \<noteq> JBool False" and "truthy (get fm ''title'')"
    and "build_payload env (now_iso env (remote w)) fm html = Inr p"
    and "truthy (get fm ''post_id'')"
    and "fetch env (remote w) (PATCH_item (get fm ''post_id'') p) = (Response status text json, r')"
    and "\<not> ok status"
  shows "upsertWebflowItem env fm html filePath False w =
           (Inl (new_Error (''Webflow update failed ('' @ string_of_nat status @ ''): '' @ text)),
            w\<lparr>remote := r', calls := calls w @ [PATCH_item (get fm ''post_id'') p]\<rparr>)"
  unfolding upsertWebflowItem_def using assms send_eq [OF assms(5)]
  by simp

lemma upsert_create_failed:
  assumes "get fm ''push_to_webflow'' \<noteq> JBool False" and "truthy (get fm ''title'')"
    and "build_payload env (now_iso env (remote w)) fm html = Inr p"
    and "\<not> truthy (get fm ''post_id'')"
    and "fetch env (remote w) (POST_item p) = (Response status text json, r')"
    and "\<not> ok status"
  shows "upsertWebflowItem env fm html filePath False w =
           (Inl (new_Error (''Webflow create failed ('' @ string_of_nat status @ ''): '' @ text)),
            w\<lparr>remote := r', calls := calls w @ [POST_item p]\<rparr>)"
  unfolding upsertWebflowItem_def using assms send_eq [OF assms(5)]
  by simp

lemma normalize_booleans_get:
  "get (normalize_booleans fm) ''push_to_webflow'' =
     (case fm ''push_to_webflow'' of
        Some (JStr v) \<Rightarrow> JBool (is_true_word v) | Some v \<Rightarrow> v | None \<Rightarrow> JUndefined)"
  "get (normalize_booleans fm) ''published'' =
     (case fm ''published'' of
        Some (JStr v) \<Rightarrow> JBool (is_true_word v) | Some v \<Rightarrow> v | None \<Rightarrow> JUndefined)"
  "k \<noteq> ''push_to_webflow'' \<Longrightarrow> k \<noteq> ''published'' \<Longrightarrow> get (normalize_booleans fm) k = get fm k"
  unfolding normalize_booleans_def normalize_boolean_def get_def has_def
  by (auto split: option.splits jsval.splits)

lemma upsert_Skipped_iff:
  "fst (upsertWebflowItem env fm html filePath dryRun w) = Inr Skipped \<longleftrightarrow>
     get fm ''push_to_webflow'' = JBool False"
  unfolding upsertWebflowItem_def
  by (auto simp: Let_def send_def split: sum.splits prod.splits response.splits)

lemma example_env_sel:
  "now_iso (example_env store) r = ''2025-11-06T12:00:00.000Z''"
  "fetch (example_env store) = store"
  "GITHUB_TOKEN (example_env store) = []"
  "WEBFLOW_TOKEN (example_env store) = ''token''"
  "WEBFLOW_COLLECTION_ID (example_env store) = ''collection''"
  "readFile (example_env store) path = Inr path"
  "render (example_env store) path content = Inr content"
  "matter (example_env store) src =
     Inr ([''title'' \<mapsto> JStr src, ''date'' \<mapsto> JStr ''2025-01-01'', ''post_id'' \<mapsto> JStr ''abc123''], ''Body'')"
  "date_iso (example_env store) (JStr d) = Some (d @ ''T00:00:00.000Z'')"
  by (simp_all add: example_env_def)

lemma string_of_nat_examples:
  "string_of_nat 401 = ''401''" "string_of_nat 404 = ''404''"
  "string_of_nat 429 = ''429''" "string_of_nat 503 = ''503''"
  by simp_all










lemma is_true_word_table:
  "is_true_word ''true''" "is_true_word ''TRUE''" "is_true_word ''1''" "is_true_word ''yes''"
  "is_true_word ''Yes''"
  "\<not> is_true_word ''false''" "\<not> is_true_word []" "\<not> is_true_word ''no''" "\<not> is_true_word ''0''"
  by (simp_all add: is_true_word_def toLowerCase_def to_lower_def)






lemma build_fieldData_env:
  assumes "REPO env1 = REPO env2" and "COMMIT_SHA env1 = COMMIT_SHA env2"
    and "date_string env1 = date_string env2"
  shows "build_fieldData env1 pd fm html = build_fieldData env2 pd fm html"
  unfolding build_fieldData_def assms by (rule refl)

section \<open>The claims\<close>

subsection \<open>Skipping\<close>

text \<open>
  C5. A document whose \<open>push_to_webflow\<close> is the boolean false is skipped before any
  request: \<open>upsertWebflowItem\<close> returns at once, with the world as it was (no request is
  added and the remote CMS is in the same state), in a dry run or not, and also after
  the boolean normalisation of \<open>processFile\<close>.
\<close>

theorem skip_makes_no_store_call:
  assumes "get fm ''push_to_webflow'' = JBool False"
  shows "upsertWebflowItem env fm html filePath dryRun w = (Inr Skipped, w) \<and>
         upsertWebflowItem env (normalize_booleans fm) html filePath dryRun w = (Inr Skipped, w) \<and>
         calls (snd (upsertWebflowItem env fm html filePath dryRun w)) = calls w \<and>
         remote (snd (upsertWebflowItem env fm html filePath dryRun w)) = remote w"
proof -
  have n: "get (normalize_booleans fm) ''push_to_webflow'' = JBool False"
  proof -
    from assms have "fm ''push_to_webflow'' = Some (JBool False)"
      by (auto simp: get_def split: option.splits)
    then show ?thesis by (simp add: normalize_booleans_get)
  qed
  show ?thesis
    by (simp add: upsert_skip [OF assms] upsert_skip [OF n])
qed

theorem skip_makes_no_store_call_witness:
  "get [''title'' \<mapsto> JStr ''Hello'', ''push_to_webflow'' \<mapsto> JBool False] ''push_to_webflow'' = JBool False \<and>
   upsertWebflowItem (example_env store_accepts)
      [''title'' \<mapsto> JStr ''Hello'', ''push_to_webflow'' \<mapsto> JBool False]
      ''<p>Hi</p>'' ''posts/a.md'' False example_world = (Inr Skipped, example_world) \<and>
   calls (snd (upsertWebflowItem (example_env store_accepts)
      [''title'' \<mapsto> JStr ''Hello'', ''push_to_webflow'' \<mapsto> JBool False]
      ''<p>Hi</p>'' ''posts/a.md'' False example_world)) = []"
proof -
  have h: "get [''title'' \<mapsto> JStr ''Hello'', ''push_to_webflow'' \<mapsto> JBool False] ''push_to_webflow'' = JBool False"
    by (simp add: get_def)
  show ?thesis
    using h skip_makes_no_store_call [OF h, of "example_env store_accepts" "''<p>Hi</p>''" "''posts/a.md''" False example_world]
    by (simp add: example_world_def)
qed

subsection \<open>What every payload carries\<close>

text \<open>
  C10. Every request that \<open>upsertWebflowItem\<close> adds carries a payload with \<open>isArchived\<close>
  false and the \<open>push-to-webflow\<close> field true, and so does every payload the mapping
  builds, whatever the frontmatter says. A document without the key \<open>push_to_webflow\<close> is
  not skipped.
\<close>

theorem payload_flags_forced:
  "list_all (\<lambda>c. \<not> isArchived (call_payload c) \<and>
                  map_of (fieldData (call_payload c)) (fid_pushToWebflow FIELD_IDS) = Some (JBool True))
     (drop (length (calls w)) (calls (snd (upsertWebflowItem env fm html filePath dryRun w)))) \<and>
   (\<forall>p. build_payload env now fm html = Inr p \<longrightarrow>
        \<not> isArchived p \<and> map_of (fieldData p) (fid_pushToWebflow FIELD_IDS) = Some (JBool True)) \<and>
   (\<not> has fm ''push_to_webflow'' \<longrightarrow>
        fst (upsertWebflowItem env fm html filePath dryRun w) \<noteq> Inr Skipped)"
proof (intro conjI allI impI)
  fix p assume "build_payload env now fm html = Inr p"
  from build_payload_Inr [OF this] show "\<not> isArchived p"
    and "map_of (fieldData p) (fid_pushToWebflow FIELD_IDS) = Some (JBool True)"
    by (auto simp: build_fieldData_lookup FIELD_IDS_def)
next
  assume "\<not> has fm ''push_to_webflow''"
  then have "get fm ''push_to_webflow'' = JUndefined" by (simp add: has_def get_def)
  then show "fst (upsertWebflowItem env fm html filePath dryRun w) \<noteq> Inr Skipped"
    by (simp add: upsert_Skipped_iff)
next
  let ?P = "\<lambda>c. \<not> isArchived (call_payload c) \<and>
                  map_of (fieldData (call_payload c)) (fid_pushToWebflow FIELD_IDS) = Some (JBool True)"
  show "list_all ?P (drop (length (calls w)) (calls (snd (upsertWebflowItem env fm html filePath dryRun w))))"
  proof (cases "get fm ''push_to_webflow'' \<noteq> JBool False \<and> truthy (get fm ''title'') \<and> \<not> dryRun")
    case False
    then have "snd (upsertWebflowItem env fm html filePath dryRun w) = w"
      unfolding upsertWebflowItem_def by (auto split: sum.splits)
    then show ?thesis by simp
  next
    case True
    show ?thesis
    proof (cases "build_payload env (now_iso env (remote w)) fm html")
      case (Inl e)
      with True have "snd (upsertWebflowItem env fm html filePath dryRun w) = w"
        by (simp add: upsert_build_error)
      then show ?thesis by simp
    next
      case (Inr p)
      from build_payload_Inr [OF Inr] have p: "\<not> isArchived p"
        "map_of (fieldData p) (fid_pushToWebflow FIELD_IDS) = Some (JBool True)"
        by (auto simp: build_fieldData_lookup FIELD_IDS_def)
      from True Inr have "calls (snd (upsertWebflowItem env fm html filePath dryRun w)) =
           calls w @ [if truthy (get fm ''post_id'') then PATCH_item (get fm ''post_id'') p else POST_item p]"
        using upsert_calls [of fm env w html p filePath] by simp
      then show ?thesis using p by simp
    qed
  qed
qed

theorem payload_flags_forced_witness:
  "\<not> has [''title'' \<mapsto> JStr ''Hello''] ''push_to_webflow'' \<and>
   fst (upsertWebflowItem (example_env store_accepts) [''title'' \<mapsto> JStr ''Hello'']
          ''<p>Hi</p>'' ''posts/a.md'' False example_world) \<noteq> Inr Skipped \<and>
   length (calls (snd (upsertWebflowItem (example_env store_accepts) [''title'' \<mapsto> JStr ''Hello'']
          ''<p>Hi</p>'' ''posts/a.md'' False example_world))) = 1 \<and>
   list_all (\<lambda>c. \<not> isArchived (call_payload c) \<and>
                  map_of (fieldData (call_payload c)) (fid_pushToWebflow FIELD_IDS) = Some (JBool True))
     (calls (snd (upsertWebflowItem (example_env store_accepts) [''title'' \<mapsto> JStr ''Hello'']
          ''<p>Hi</p>'' ''posts/a.md'' False example_world)))"
proof -
  let ?env = "example_env store_accepts"
  let ?fm = "[''title'' \<mapsto> JStr ''Hello'']"
  have absent: "\<not> has ?fm ''push_to_webflow''" by (simp add: has_def)
  have push: "get ?fm ''push_to_webflow'' \<noteq> JBool False" and title: "truthy (get ?fm ''title'')"
    by (simp_all add: get_def)
  have pay: "build_payload ?env (now_iso ?env (remote example_world)) ?fm ''<p>Hi</p>'' =
      Inr \<lparr> isArchived = False, isDraft = True,
            fieldData = build_fieldData ?env ''2025-11-06T12:00:00.000Z'' ?fm ''<p>Hi</p>'' \<rparr>"
    by (simp add: build_payload_def publishDate_def get_def example_env_def)
  have len: "length (calls (snd (upsertWebflowItem ?env ?fm ''<p>Hi</p>'' ''posts/a.md'' False example_world))) = 1"
    using upsert_calls [OF push title pay, of "''posts/a.md''"] by (simp add: example_world_def)
  show ?thesis
    using absent len
      payload_flags_forced [of example_world ?env ?fm "''<p>Hi</p>''" "''posts/a.md''" False "''2025-11-06T12:00:00.000Z''"]
    by (simp add: example_world_def)
qed

subsection \<open>The change set\<close>

text \<open>
  C8. When the diff against the previous revision cannot be computed (\<open>git diff\<close> throws,
  as it does when there is no previous revision), the changed files are exactly what
  \<open>getAllMarkdown\<close> gives, an error of the listing included; so a run without \<open>--all\<close>
  is then the run with \<open>--all\<close>. The script has no way to pass an explicit list.
\<close>

theorem delta_falls_back_to_all:
  assumes "git_diff env = Inl e"
  shows "getChangedMarkdown env = getAllMarkdown env \<and>
         main env False dryRun w = main env True dryRun w"
  using assms by (simp add: getChangedMarkdown_def main_def)

theorem delta_falls_back_to_all_witness:
  "git_diff (example_env store_accepts) = Inl (JsError ''Error'' ''Command failed: git diff'') \<and>
   getAllMarkdown (example_env store_accepts) = Inr [''posts/a.md'', ''posts/drafts/b.md''] \<and>
   getChangedMarkdown (example_env store_accepts) = Inr [''posts/a.md'', ''posts/drafts/b.md'']"
proof -
  have g: "git_diff (example_env store_accepts) = Inl (JsError ''Error'' ''Command failed: git diff'')"
    by (simp add: example_env_def)
  have a: "getAllMarkdown (example_env store_accepts) = Inr [''posts/a.md'', ''posts/drafts/b.md'']"
    by (simp add: getAllMarkdown_def example_env_def POSTS_DIR_def endsWith_def)
  show ?thesis
    using g a delta_falls_back_to_all [OF g, of False example_world] by simp
qed

subsection \<open>Create or update\<close>

text \<open>
  C1. For a document that reaches the store (it is not skipped, has a title, its payload
  was built, and the run is not a dry run), the one request is chosen by the record's
  identifier alone, the \<open>post-id\<close> of the mapped record, which is there exactly when
  \<open>fm.post_id\<close> is truthy: without it the engine adds exactly one \<open>POST\<close> (create), with
  it exactly one \<open>PATCH\<close> of that item (update). The model has no other request, so no
  lookup by slug. Two documents without an identifier, reconciled one after the other,
  give two \<open>POST\<close>s, whatever their slugs.
\<close>

theorem reconcile_by_identifier:
  assumes "get fm ''push_to_webflow'' \<noteq> JBool False" and "truthy (get fm ''title'')"
    and "build_payload env (now_iso env (remote w)) fm html = Inr p"
  shows
    "(map_of (fieldData p) (fid_postId FIELD_IDS) = None \<longleftrightarrow> \<not> truthy (get fm ''post_id'')) \<and>
     (map_of (fieldData p) (fid_postId FIELD_IDS) = None \<longrightarrow>
        calls (snd (upsertWebflowItem env fm html filePath False w)) = calls w @ [POST_item p]) \<and>
     (\<forall>i. map_of (fieldData p) (fid_postId FIELD_IDS) = Some i \<longrightarrow>
        i = JStr (js_String (date_string env) (get fm ''post_id'')) \<and>
        calls (snd (upsertWebflowItem env fm html filePath False w)) =
          calls w @ [PATCH_item (get fm ''post_id'') p]) \<and>
     (\<forall>fm2 html2 filePath2 p2.
        get fm2 ''push_to_webflow'' \<noteq> JBool False \<and> truthy (get fm2 ''title'') \<and>
        build_payload env (now_iso env (remote (snd (upsertWebflowItem env fm html filePath False w))))
           fm2 html2 = Inr p2 \<and>
        map_of (fieldData p) (fid_postId FIELD_IDS) = None \<and>
        map_of (fieldData p2) (fid_postId FIELD_IDS) = None \<longrightarrow>
        calls (snd (upsertWebflowItem env fm2 html2 filePath2 False
                      (snd (upsertWebflowItem env fm html filePath False w)))) =
          calls w @ [POST_item p, POST_item p2])"
proof -
  have id_of: "map_of (fieldData q) (fid_postId FIELD_IDS) =
      (if truthy (get g ''post_id'') then Some (JStr (js_String (date_string env) (get g ''post_id''))) else None)"
    if "build_payload env t g h = Inr q" for q g t h
    using build_payload_Inr [OF that] by (auto simp: build_fieldData_lookup FIELD_IDS_def)
  note c = upsert_calls [OF assms, of filePath]
  have one: "map_of (fieldData p) (fid_postId FIELD_IDS) = None \<longleftrightarrow> \<not> truthy (get fm ''post_id'')"
    by (simp add: id_of [OF assms(3)])
  have two: "map_of (fieldData p) (fid_postId FIELD_IDS) = None \<longrightarrow>
        calls (snd (upsertWebflowItem env fm html filePath False w)) = calls w @ [POST_item p]"
    using c one by simp
  have three: "\<forall>i. map_of (fieldData p) (fid_postId FIELD_IDS) = Some i \<longrightarrow>
        i = JStr (js_String (date_string env) (get fm ''post_id'')) \<and>
        calls (snd (upsertWebflowItem env fm html filePath False w)) =
          calls w @ [PATCH_item (get fm ''post_id'') p]"
    using c by (auto simp: id_of [OF assms(3)] split: if_splits)
  have four: "calls (snd (upsertWebflowItem env fm2 html2 filePath2 False
                      (snd (upsertWebflowItem env fm html filePath False w)))) =
          calls w @ [POST_item p, POST_item p2]"
    if a: "get fm2 ''push_to_webflow'' \<noteq> JBool False" "truthy (get fm2 ''title'')"
      "build_payload env (now_iso env (remote (snd (upsertWebflowItem env fm html filePath False w))))
           fm2 html2 = Inr p2"
      "map_of (fieldData p) (fid_postId FIELD_IDS) = None"
      "map_of (fieldData p2) (fid_postId FIELD_IDS) = None"
    for fm2 html2 filePath2 p2
  proof -
    have n2: "\<not> truthy (get fm2 ''post_id'')"
      using a(5) by (simp add: id_of [OF a(3)] split: if_splits)
    have n1: "\<not> truthy (get fm ''post_id'')" using a(4) one by simp
    show ?thesis
      using upsert_calls [OF a(1) a(2) a(3), of filePath2] c n1 n2 by simp
  qed
  show ?thesis using one two three four by blast
qed

theorem reconcile_by_identifier_witness:
  "get [''title'' \<mapsto> JStr ''Hello World''] ''title'' \<noteq> get [''title'' \<mapsto> JStr ''Hello, World!''] ''title'' \<and>
   map_of (build_fieldData (example_env store_accepts) ''2025-11-06T12:00:00.000Z''
             [''title'' \<mapsto> JStr ''Hello World''] ''<p>Hi</p>'') ''slug'' = Some (JStr ''hello-world'') \<and>
   map_of (build_fieldData (example_env store_accepts) ''2025-11-06T12:00:00.000Z''
             [''title'' \<mapsto> JStr ''Hello, World!''] ''<p>Hi</p>'') ''slug'' = Some (JStr ''hello-world'') \<and>
   calls (snd (upsertWebflowItem (example_env store_accepts) [''title'' \<mapsto> JStr ''Hello, World!'']
                 ''<p>Hi</p>'' ''posts/b.md'' False
            (snd (upsertWebflowItem (example_env store_accepts) [''title'' \<mapsto> JStr ''Hello World'']
                    ''<p>Hi</p>'' ''posts/a.md'' False example_world)))) =
     [POST_item \<lparr> isArchived = False, isDraft = True,
                  fieldData = build_fieldData (example_env store_accepts) ''2025-11-06T12:00:00.000Z''
                                [''title'' \<mapsto> JStr ''Hello World''] ''<p>Hi</p>'' \<rparr>,
      POST_item \<lparr> isArchived = False, isDraft = True,
                  fieldData = build_fieldData (example_env store_accepts) ''2025-11-06T12:00:00.000Z''
                                [''title'' \<mapsto> JStr ''Hello, World!''] ''<p>Hi</p>'' \<rparr>] \<and>
   remote (snd (upsertWebflowItem (example_env store_accepts) [''title'' \<mapsto> JStr ''Hello, World!'']
                 ''<p>Hi</p>'' ''posts/b.md'' False
            (snd (upsertWebflowItem (example_env store_accepts) [''title'' \<mapsto> JStr ''Hello World'']
                    ''<p>Hi</p>'' ''posts/a.md'' False example_world)))) = 2"
proof -
  let ?env = "example_env store_accepts"
  let ?now = "''2025-11-06T12:00:00.000Z''"
  let ?fm1 = "[''title'' \<mapsto> JStr ''Hello World'']"
  let ?fm2 = "[''title'' \<mapsto> JStr ''Hello, World!'']"
  let ?h = "''<p>Hi</p>''"
  let ?p1 = "\<lparr> isArchived = False, isDraft = True, fieldData = build_fieldData ?env ?now ?fm1 ?h \<rparr>"
  let ?p2 = "\<lparr> isArchived = False, isDraft = True, fieldData = build_fieldData ?env ?now ?fm2 ?h \<rparr>"
  let ?w1 = "snd (upsertWebflowItem ?env ?fm1 ?h ''posts/a.md'' False example_world)"
  have distinct_docs: "get ?fm1 ''title'' \<noteq> get ?fm2 ''title''"
    by (simp add: get_def)
  have slug1: "map_of (build_fieldData ?env ?now ?fm1 ?h) ''slug'' = Some (JStr ''hello-world'')"
    by (simp add: build_fieldData_lookup get_def kebab_def trim_def toLowerCase_def to_lower_def
          is_space_def is_punct_def is_alnum_def strip_hyphens_def)
  have slug2: "map_of (build_fieldData ?env ?now ?fm2 ?h) ''slug'' = Some (JStr ''hello-world'')"
    by (simp add: build_fieldData_lookup get_def kebab_def trim_def toLowerCase_def to_lower_def
          is_space_def is_punct_def is_alnum_def strip_hyphens_def)
  have push1: "get ?fm1 ''push_to_webflow'' \<noteq> JBool False" and title1: "truthy (get ?fm1 ''title'')"
    and push2: "get ?fm2 ''push_to_webflow'' \<noteq> JBool False" and title2: "truthy (get ?fm2 ''title'')"
    by (simp_all add: get_def)
  have pay1n: "build_payload ?env ?now ?fm1 ?h = Inr ?p1"
    and pay2n: "build_payload ?env ?now ?fm2 ?h = Inr ?p2"
    by (simp_all add: build_payload_def publishDate_def get_def)
  have pay1: "build_payload ?env (now_iso ?env (remote example_world)) ?fm1 ?h = Inr ?p1"
    and pay2: "build_payload ?env (now_iso ?env (remote ?w1)) ?fm2 ?h = Inr ?p2"
    using pay1n pay2n by (simp_all add: example_env_sel)
  have id1: "map_of (fieldData ?p1) (fid_postId FIELD_IDS) = None"
    and id2: "map_of (fieldData ?p2) (fid_postId FIELD_IDS) = None"
    by (simp_all add: build_fieldData_lookup FIELD_IDS_def get_def)
  from reconcile_by_identifier [OF push1 title1 pay1, of "''posts/a.md''"]
  have both: "calls (snd (upsertWebflowItem ?env ?fm2 ?h ''posts/b.md'' False ?w1)) =
      calls example_world @ [POST_item ?p1, POST_item ?p2]"
    using push2 title2 pay2 id1 id2 by blast
  have r1: "remote ?w1 = 1"
    unfolding upsertWebflowItem_def
    by (simp add: pay1n get_def send_def example_env_sel store_accepts_def ok_def
          dispatchWriteback_def example_world_def Let_def)
  have r2: "remote (snd (upsertWebflowItem ?env ?fm2 ?h ''posts/b.md'' False ?w1)) = 2"
    unfolding upsertWebflowItem_def [of ?env ?fm2]
    by (simp add: pay2n r1 get_def send_def example_env_sel store_accepts_def ok_def
          dispatchWriteback_def Let_def)
  show ?thesis
    using distinct_docs slug1 slug2 both r2 by (simp add: example_world_def)
qed

subsection \<open>Failures of the store\<close>

text \<open>
  C2, as the code has it. The script has no retry: a request answered with a status
  outside 200..299, of whatever class, is the only request made for the document, and
  the call throws at once an Error that carries the status and the text of the response.
\<close>

theorem store_failure_surfaces_without_retry:
  assumes "get fm ''push_to_webflow'' \<noteq> JBool False" and "truthy (get fm ''title'')"
    and "build_payload env (now_iso env (remote w)) fm html = Inr p"
    and "fetch env (remote w)
           (if truthy (get fm ''post_id'') then PATCH_item (get fm ''post_id'') p else POST_item p) =
         (Response status text json, r')"
    and "\<not> ok status"
  shows "upsertWebflowItem env fm html filePath False w =
           (Inl (new_Error (''Webflow '' @ (if truthy (get fm ''post_id'') then ''update'' else ''create'') @
                            '' failed ('' @ string_of_nat status @ ''): '' @ text)),
            w\<lparr>remote := r',
              calls := calls w @ [if truthy (get fm ''post_id'') then PATCH_item (get fm ''post_id'') p
                                  else POST_item p]\<rparr>)"
proof (cases "truthy (get fm ''post_id'')")
  case True
  with assms(4) have f: "fetch env (remote w) (PATCH_item (get fm ''post_id'') p) = (Response status text json, r')"
    by simp
  show ?thesis
    using upsert_update_failed [OF assms(1-3) True f assms(5), of filePath] True by simp
next
  case False
  with assms(4) have f: "fetch env (remote w) (POST_item p) = (Response status text json, r')"
    by simp
  show ?thesis
    using upsert_create_failed [OF assms(1-3) False f assms(5), of filePath] False by simp
qed

theorem store_failure_surfaces_without_retry_witness:
  "upsertWebflowItem (example_env (store_refuses 429 ''Too Many Requests''))
      [''title'' \<mapsto> JStr ''Hello'', ''post_id'' \<mapsto> JStr ''abc123''] ''<p>Hi</p>'' ''posts/a.md'' False example_world =
     (Inl (new_Error ''Webflow update failed (429): Too Many Requests''),
      example_world\<lparr>remote := 0, calls :=
        [PATCH_item (JStr ''abc123'')
           \<lparr> isArchived = False, isDraft = True,
             fieldData = build_fieldData (example_env (store_refuses 429 ''Too Many Requests''))
                ''2025-11-06T12:00:00.000Z''
                [''title'' \<mapsto> JStr ''Hello'', ''post_id'' \<mapsto> JStr ''abc123''] ''<p>Hi</p>'' \<rparr>]\<rparr>)"
proof -
  let ?env = "example_env (store_refuses 429 ''Too Many Requests'')"
  let ?fm = "[''title'' \<mapsto> JStr ''Hello'', ''post_id'' \<mapsto> JStr ''abc123'']"
  let ?p = "\<lparr> isArchived = False, isDraft = True,
             fieldData = build_fieldData ?env ''2025-11-06T12:00:00.000Z'' ?fm ''<p>Hi</p>'' \<rparr>"
  have push: "get ?fm ''push_to_webflow'' \<noteq> JBool False" and title: "truthy (get ?fm ''title'')"
    by (simp_all add: get_def)
  have pay: "build_payload ?env (now_iso ?env (remote example_world)) ?fm ''<p>Hi</p>'' = Inr ?p"
    by (simp add: build_payload_def publishDate_def get_def example_env_sel)
  have f: "fetch ?env (remote example_world)
             (if truthy (get ?fm ''post_id'') then PATCH_item (get ?fm ''post_id'') ?p else POST_item ?p) =
           (Response 429 ''Too Many Requests'' (Inr (JObj [])), 0)"
    by (simp add: example_env_sel store_refuses_def get_def example_world_def)
  have nok: "\<not> ok 429" by (simp add: ok_def)
  show ?thesis
    using store_failure_surfaces_without_retry [OF push title pay f nok, of "''posts/a.md''"]
    by (simp add: get_def string_of_nat_examples example_world_def)
qed

text \<open>
  The claim as the specification states it (a transient failure is retried) fails: a CMS
  that answers 503 to a create is asked once.
\<close>

theorem transient_failure_retry_counterexample:
  "fst (upsertWebflowItem (example_env (store_refuses 503 ''Service Unavailable''))
         [''title'' \<mapsto> JStr ''Hello''] ''<p>Hi</p>'' ''posts/a.md'' False example_world) =
     Inl (new_Error ''Webflow create failed (503): Service Unavailable'') \<and>
   length (calls (snd (upsertWebflowItem (example_env (store_refuses 503 ''Service Unavailable''))
         [''title'' \<mapsto> JStr ''Hello''] ''<p>Hi</p>'' ''posts/a.md'' False example_world))) = 1"
proof -
  let ?env = "example_env (store_refuses 503 ''Service Unavailable'')"
  let ?fm = "[''title'' \<mapsto> JStr ''Hello'']"
  let ?p = "\<lparr> isArchived = False, isDraft = True,
             fieldData = build_fieldData ?env ''2025-11-06T12:00:00.000Z'' ?fm ''<p>Hi</p>'' \<rparr>"
  have push: "get ?fm ''push_to_webflow'' \<noteq> JBool False" and title: "truthy (get ?fm ''title'')"
    and noid: "\<not> truthy (get ?fm ''post_id'')"
    by (simp_all add: get_def)
  have pay: "build_payload ?env (now_iso ?env (remote example_world)) ?fm ''<p>Hi</p>'' = Inr ?p"
    by (simp add: build_payload_def publishDate_def get_def example_env_sel)
  have f: "fetch ?env (remote example_world) (POST_item ?p) =
           (Response 503 ''Service Unavailable'' (Inr (JObj [])), 0)"
    by (simp add: example_env_sel store_refuses_def example_world_def)
  have nok: "\<not> ok 503" by (simp add: ok_def)
  show ?thesis
    using upsert_create_failed [OF push title pay noid f nok, of "''posts/a.md''"]
    by (simp add: string_of_nat_examples example_world_def)
qed

text \<open>
  C3, as the code has it. When the CMS answers 404 to the update of a document with an
  identifier, the call throws a plain Error (name \<open>Error\<close>, the status in its message,
  as for every other status); the \<open>PATCH\<close> is the only request, no create follows.
\<close>

theorem stale_identifier_is_plain_error:
  assumes "get fm ''push_to_webflow'' \<noteq> JBool False" and "truthy (get fm ''title'')"
    and "build_payload env (now_iso env (remote w)) fm html = Inr p"
    and "truthy (get fm ''post_id'')"
    and "fetch env (remote w) (PATCH_item (get fm ''post_id'') p) = (Response 404 text json, r')"
  shows "upsertWebflowItem env fm html filePath False w =
           (Inl (new_Error (''Webflow update failed (404): '' @ text)),
            w\<lparr>remote := r', calls := calls w @ [PATCH_item (get fm ''post_id'') p]\<rparr>) \<and>
         thrown_name (fst (upsertWebflowItem env fm html filePath False w)) = Some ''Error'' \<and>
         \<not> list_ex is_POST
              (drop (length (calls w)) (calls (snd (upsertWebflowItem env fm html filePath False w))))"
proof -
  have nok: "\<not> ok 404" by (simp add: ok_def)
  show ?thesis
    using upsert_update_failed [OF assms nok, of filePath]
    by (simp add: string_of_nat_examples new_Error_def)
qed

theorem stale_identifier_is_plain_error_witness:
  "thrown_name (fst (upsertWebflowItem (example_env (store_refuses 404 ''Not Found''))
      [''title'' \<mapsto> JStr ''Hello'', ''post_id'' \<mapsto> JStr ''abc123''] ''<p>Hi</p>'' ''posts/a.md'' False
      example_world)) = Some ''Error'' \<and>
   map is_POST (calls (snd (upsertWebflowItem (example_env (store_refuses 404 ''Not Found''))
      [''title'' \<mapsto> JStr ''Hello'', ''post_id'' \<mapsto> JStr ''abc123''] ''<p>Hi</p>'' ''posts/a.md'' False
      example_world))) = [False]"
proof -
  let ?env = "example_env (store_refuses 404 ''Not Found'')"
  let ?fm = "[''title'' \<mapsto> JStr ''Hello'', ''post_id'' \<mapsto> JStr ''abc123'']"
  let ?p = "\<lparr> isArchived = False, isDraft = True,
             fieldData = build_fieldData ?env ''2025-11-06T12:00:00.000Z'' ?fm ''<p>Hi</p>'' \<rparr>"
  have push: "get ?fm ''push_to_webflow'' \<noteq> JBool False" and title: "truthy (get ?fm ''title'')"
    and id: "truthy (get ?fm ''post_id'')"
    by (simp_all add: get_def)
  have pay: "build_payload ?env (now_iso ?env (remote example_world)) ?fm ''<p>Hi</p>'' = Inr ?p"
    by (simp add: build_payload_def publishDate_def get_def example_env_sel)
  have f: "fetch ?env (remote example_world) (PATCH_item (get ?fm ''post_id'') ?p) =
           (Response 404 ''Not Found'' (Inr (JObj [])), 0)"
    by (simp add: example_env_sel store_refuses_def example_world_def)
  show ?thesis
    using stale_identifier_is_plain_error [OF push title pay id f, of "''posts/a.md''"]
    by (simp add: example_world_def get_def new_Error_def)
qed

text \<open>
  The claim as stated (an error of the kind \<open>StaleIdentifier\<close>) fails: the error thrown
  for a 404 is not of that kind.
\<close>

theorem stale_identifier_kind_counterexample:
  "thrown_name (fst (upsertWebflowItem (example_env (store_refuses 404 ''Not Found''))
      [''title'' \<mapsto> JStr ''Hello'', ''post_id'' \<mapsto> JStr ''abc123''] ''<p>Hi</p>'' ''posts/a.md'' False
      example_world)) \<noteq> Some ''StaleIdentifier'' \<and>
   fst (upsertWebflowItem (example_env (store_refuses 404 ''Not Found''))
      [''title'' \<mapsto> JStr ''Hello'', ''post_id'' \<mapsto> JStr ''abc123''] ''<p>Hi</p>'' ''posts/a.md'' False
      example_world) = Inl (JsError ''Error'' ''Webflow update failed (404): Not Found'')"
proof -
  let ?env = "example_env (store_refuses 404 ''Not Found'')"
  let ?fm = "[''title'' \<mapsto> JStr ''Hello'', ''post_id'' \<mapsto> JStr ''abc123'']"
  let ?p = "\<lparr> isArchived = False, isDraft = True,
             fieldData = build_fieldData ?env ''2025-11-06T12:00:00.000Z'' ?fm ''<p>Hi</p>'' \<rparr>"
  have push: "get ?fm ''push_to_webflow'' \<noteq> JBool False" and title: "truthy (get ?fm ''title'')"
    and id: "truthy (get ?fm ''post_id'')"
    by (simp_all add: get_def)
  have pay: "build_payload ?env (now_iso ?env (remote example_world)) ?fm ''<p>Hi</p>'' = Inr ?p"
    by (simp add: build_payload_def publishDate_def get_def example_env_sel)
  have f: "fetch ?env (remote example_world) (PATCH_item (get ?fm ''post_id'') ?p) =
           (Response 404 ''Not Found'' (Inr (JObj [])), 0)"
    by (simp add: example_env_sel store_refuses_def example_world_def)
  have nok: "\<not> ok 404" by (simp add: ok_def)
  show ?thesis
    using upsert_update_failed [OF push title pay id f nok, of "''posts/a.md''"]
    by (simp add: string_of_nat_examples new_Error_def)
qed

subsection \<open>Required fields\<close>




subsection \<open>Errors during a run\<close>




subsection \<open>Boolean coercion\<close>

text \<open>
  C7, as the code has it. A string value of \<open>published\<close> or \<open>push_to_webflow\<close> becomes the
  boolean of the test: true for \<open>true\<close>, \<open>yes\<close>, \<open>1\<close> in any letter case, false for every
  other string. The field \<open>is-published\<close> (and \<open>isDraft\<close>, its negation) is that boolean
  for a string and the truthiness of any other value (false when absent). The field
  \<open>push-to-webflow\<close> is always true, and a document is skipped exactly when its
  \<open>push_to_webflow\<close> is the boolean false or a string that is not one of the three words.
\<close>

theorem boolean_coercion_as_coded:
  "(\<forall>v. fm ''published'' = Some (JStr v) \<longrightarrow>
        get (normalize_booleans fm) ''published'' = JBool (is_true_word v)) \<and>
   (\<forall>v. fm ''push_to_webflow'' = Some (JStr v) \<longrightarrow>
        get (normalize_booleans fm) ''push_to_webflow'' = JBool (is_true_word v)) \<and>
   is_true_word s = (toLowerCase s = ''true'' \<or> toLowerCase s = ''yes'' \<or> toLowerCase s = ''1'') \<and>
   (\<forall>p. build_payload env now (normalize_booleans fm) html = Inr p \<longrightarrow>
        map_of (fieldData p) (fid_isPublished FIELD_IDS) =
          Some (JBool (case fm ''published'' of
                         Some (JStr v) \<Rightarrow> is_true_word v | Some v \<Rightarrow> truthy v | None \<Rightarrow> False)) \<and>
        isDraft p =
          (\<not> (case fm ''published'' of
                 Some (JStr v) \<Rightarrow> is_true_word v | Some v \<Rightarrow> truthy v | None \<Rightarrow> False)) \<and>
        map_of (fieldData p) (fid_pushToWebflow FIELD_IDS) = Some (JBool True)) \<and>
   (fst (upsertWebflowItem env (normalize_booleans fm) html filePath dryRun w) = Inr Skipped \<longleftrightarrow>
      fm ''push_to_webflow'' = Some (JBool False) \<or>
      (\<exists>v. fm ''push_to_webflow'' = Some (JStr v) \<and> \<not> is_true_word v))"
proof (intro conjI allI impI)
  fix v assume "fm ''published'' = Some (JStr v)"
  then show "get (normalize_booleans fm) ''published'' = JBool (is_true_word v)"
    by (simp add: normalize_booleans_get)
next
  fix v assume "fm ''push_to_webflow'' = Some (JStr v)"
  then show "get (normalize_booleans fm) ''push_to_webflow'' = JBool (is_true_word v)"
    by (simp add: normalize_booleans_get)
next
  show "is_true_word s = (toLowerCase s = ''true'' \<or> toLowerCase s = ''yes'' \<or> toLowerCase s = ''1'')"
    by (simp add: is_true_word_def)
next
  fix p assume b: "build_payload env now (normalize_booleans fm) html = Inr p"
  have t: "truthy (get (normalize_booleans fm) ''published'') =
      (case fm ''published'' of Some (JStr v) \<Rightarrow> is_true_word v | Some v \<Rightarrow> truthy v | None \<Rightarrow> False)"
    by (simp add: normalize_booleans_get split: option.splits jsval.splits)
  from build_payload_Inr [OF b] t
  show "map_of (fieldData p) (fid_isPublished FIELD_IDS) =
          Some (JBool (case fm ''published'' of
                         Some (JStr v) \<Rightarrow> is_true_word v | Some v \<Rightarrow> truthy v | None \<Rightarrow> False))"
    and "isDraft p =
          (\<not> (case fm ''published'' of
                 Some (JStr v) \<Rightarrow> is_true_word v | Some v \<Rightarrow> truthy v | None \<Rightarrow> False))"
    and "map_of (fieldData p) (fid_pushToWebflow FIELD_IDS) = Some (JBool True)"
    by (auto simp: build_fieldData_lookup FIELD_IDS_def)
next
  show "fst (upsertWebflowItem env (normalize_booleans fm) html filePath dryRun w) = Inr Skipped \<longleftrightarrow>
      fm ''push_to_webflow'' = Some (JBool False) \<or>
      (\<exists>v. fm ''push_to_webflow'' = Some (JStr v) \<and> \<not> is_true_word v)"
    by (auto simp: upsert_Skipped_iff normalize_booleans_get split: option.splits jsval.splits)
qed

theorem boolean_coercion_as_coded_witness:
  "get (normalize_booleans [''title'' \<mapsto> JStr ''Hello'', ''published'' \<mapsto> JStr ''TRUE'',
                            ''push_to_webflow'' \<mapsto> JStr ''no'']) ''published'' = JBool True \<and>
   get (normalize_booleans [''title'' \<mapsto> JStr ''Hello'', ''published'' \<mapsto> JStr ''TRUE'',
                            ''push_to_webflow'' \<mapsto> JStr ''no'']) ''push_to_webflow'' = JBool False \<and>
   fst (upsertWebflowItem (example_env store_accepts)
          (normalize_booleans [''title'' \<mapsto> JStr ''Hello'', ''published'' \<mapsto> JStr ''TRUE'',
                               ''push_to_webflow'' \<mapsto> JStr ''no''])
          ''<p>Hi</p>'' ''posts/a.md'' False example_world) = Inr Skipped \<and>
   map_of (build_fieldData (example_env store_accepts) ''2025-11-06T12:00:00.000Z''
             (normalize_booleans [''title'' \<mapsto> JStr ''Hello'', ''published'' \<mapsto> JStr ''yes''])
             ''<p>Hi</p>'') (fid_isPublished FIELD_IDS) = Some (JBool True)"
proof -
  let ?env = "example_env store_accepts"
  let ?fm = "[''title'' \<mapsto> JStr ''Hello'', ''published'' \<mapsto> JStr ''TRUE'', ''push_to_webflow'' \<mapsto> JStr ''no'']"
  let ?fm2 = "[''title'' \<mapsto> JStr ''Hello'', ''published'' \<mapsto> JStr ''yes'']"
  let ?p2 = "\<lparr> isArchived = False, isDraft = False,
              fieldData = build_fieldData ?env ''2025-11-06T12:00:00.000Z'' (normalize_booleans ?fm2) ''<p>Hi</p>'' \<rparr>"
  note T = boolean_coercion_as_coded [of ?fm _ ?env _ "''<p>Hi</p>''" "''posts/a.md''" False example_world]
  have a: "?fm ''published'' = Some (JStr ''TRUE'')" and b: "?fm ''push_to_webflow'' = Some (JStr ''no'')"
    by simp_all
  from T a have one: "get (normalize_booleans ?fm) ''published'' = JBool True"
    by (simp add: is_true_word_table)
  from T b have two: "get (normalize_booleans ?fm) ''push_to_webflow'' = JBool False"
    by (simp add: is_true_word_table)
  from T b have three: "fst (upsertWebflowItem ?env (normalize_booleans ?fm) ''<p>Hi</p>'' ''posts/a.md'' False
                               example_world) = Inr Skipped"
    by (simp add: is_true_word_table)
  have pay: "build_payload ?env ''2025-11-06T12:00:00.000Z'' (normalize_booleans ?fm2) ''<p>Hi</p>'' = Inr ?p2"
    by (simp add: build_payload_def publishDate_def normalize_booleans_get is_true_word_table)
       (simp add: get_def)
  from boolean_coercion_as_coded [of ?fm2 _ ?env "''2025-11-06T12:00:00.000Z''" "''<p>Hi</p>''"] pay
  have "map_of (fieldData ?p2) (fid_isPublished FIELD_IDS) =
          Some (JBool (case ?fm2 ''published'' of
                         Some (JStr v) \<Rightarrow> is_true_word v | Some v \<Rightarrow> truthy v | None \<Rightarrow> False))"
    by blast
  then have four: "map_of (build_fieldData ?env ''2025-11-06T12:00:00.000Z'' (normalize_booleans ?fm2) ''<p>Hi</p>'')
                     (fid_isPublished FIELD_IDS) = Some (JBool True)"
    by (simp add: is_true_word_table)
  show ?thesis using one two three four by simp
qed

text \<open>
  The claim as stated (every value other than the three words, an absent field included,
  coerces to false, for every boolean field) fails: without the key \<open>push_to_webflow\<close>
  the document is pushed and its \<open>push-to-webflow\<close> field is true, and the number 1 as
  \<open>published\<close> gives \<open>is-published\<close> true.
\<close>

theorem absent_flag_coerces_to_true_counterexample:
  "\<not> has [''title'' \<mapsto> JStr ''Hello'', ''published'' \<mapsto> JNum 1] ''push_to_webflow'' \<and>
   map_of (build_fieldData (example_env store_accepts) ''2025-11-06T12:00:00.000Z''
             (normalize_booleans [''title'' \<mapsto> JStr ''Hello'', ''published'' \<mapsto> JNum 1])
             ''<p>Hi</p>'') (fid_pushToWebflow FIELD_IDS) = Some (JBool True) \<and>
   fst (upsertWebflowItem (example_env store_accepts)
          (normalize_booleans [''title'' \<mapsto> JStr ''Hello'', ''published'' \<mapsto> JNum 1])
          ''<p>Hi</p>'' ''posts/a.md'' False example_world) \<noteq> Inr Skipped \<and>
   map_of (build_fieldData (example_env store_accepts) ''2025-11-06T12:00:00.000Z''
             (normalize_booleans [''title'' \<mapsto> JStr ''Hello'', ''published'' \<mapsto> JNum 1])
             ''<p>Hi</p>'') (fid_isPublished FIELD_IDS) = Some (JBool True)"
  by (simp add: has_def build_fieldData_lookup FIELD_IDS_def upsert_Skipped_iff normalize_booleans_get)

subsection \<open>Determinism of the mapping\<close>

text \<open>
  C9, as the code has it. The payload depends on the surroundings through the
  repository, the commit and the two date conversions of the host (\<open>String(d)\<close> and
  \<open>new Date(v).toISOString()\<close>) only: in two surroundings that agree on these four, a
  document with a truthy \<open>date\<close> gives the same payload at any two times, and any
  document gives the same payload at the same time. Without a \<open>date\<close> the payload is
  built with the clock's reading as its \<open>publish-date\<close>; every other field is the same
  at any two times.
\<close>

theorem mapping_reads_clock_only_without_date:
  assumes "REPO env1 = REPO env2" and "COMMIT_SHA env1 = COMMIT_SHA env2"
    and "date_string env1 = date_string env2" and "date_iso env1 = date_iso env2"
  shows
  "(truthy (get fm ''date'') \<longrightarrow> build_payload env1 now1 fm html = build_payload env2 now2 fm html) \<and>
   build_payload env1 now fm html = build_payload env2 now fm html \<and>
   (\<not> truthy (get fm ''date'') \<longrightarrow>
      build_payload env1 now fm html =
        Inr \<lparr> isArchived = False, isDraft = (\<not> truthy (get fm ''published'')),
              fieldData = build_fieldData env1 now fm html \<rparr> \<and>
      map_of (build_fieldData env1 now fm html) (fid_publishDate FIELD_IDS) = Some (JStr now)) \<and>
   (k \<noteq> fid_publishDate FIELD_IDS \<longrightarrow>
      map_of (build_fieldData env1 now1 fm html) k = map_of (build_fieldData env2 now2 fm html) k)"
proof (intro conjI impI)
  note fd = build_fieldData_env [OF assms(1-3)]
  show "build_payload env1 now fm html = build_payload env2 now fm html"
    by (simp add: build_payload_def publishDate_def assms(4) fd split: option.splits)
  { assume "truthy (get fm ''date'')"
    then show "build_payload env1 now1 fm html = build_payload env2 now2 fm html"
      by (simp add: build_payload_def publishDate_def assms(4) fd split: option.splits) }
  { assume "\<not> truthy (get fm ''date'')"
    then show "build_payload env1 now fm html =
        Inr \<lparr> isArchived = False, isDraft = (\<not> truthy (get fm ''published'')),
              fieldData = build_fieldData env1 now fm html \<rparr>"
      by (simp add: build_payload_def publishDate_def) }
  show "map_of (build_fieldData env1 now fm html) (fid_publishDate FIELD_IDS) = Some (JStr now)"
    by (simp add: build_fieldData_lookup FIELD_IDS_def)
  { assume "k \<noteq> fid_publishDate FIELD_IDS"
    then have k: "k \<noteq> ''publish-date''" by (simp add: FIELD_IDS_def)
    have "map_of (build_fieldData env1 now1 fm html) k = map_of (build_fieldData env1 now2 fm html) k"
      unfolding build_fieldData_def Let_def
      using k by (simp add: FIELD_IDS_def map_of_set_fields [OF steps_ok])
    then show "map_of (build_fieldData env1 now1 fm html) k = map_of (build_fieldData env2 now2 fm html) k"
      by (simp add: fd) }
qed

theorem mapping_reads_clock_only_without_date_witness:
  "build_payload (example_env store_accepts) ''2025-11-06T12:00:00.000Z''
      [''title'' \<mapsto> JStr ''Hello'', ''date'' \<mapsto> JStr ''2025-01-01''] ''<p>Hi</p>'' =
   build_payload (example_env (store_refuses 503 ''Service Unavailable'')) ''2025-11-07T12:00:00.000Z''
      [''title'' \<mapsto> JStr ''Hello'', ''date'' \<mapsto> JStr ''2025-01-01''] ''<p>Hi</p>'' \<and>
   map_of (build_fieldData (example_env store_accepts) ''2025-11-06T12:00:00.000Z''
             [''title'' \<mapsto> JStr ''Hello''] ''<p>Hi</p>'') (fid_publishDate FIELD_IDS) =
     Some (JStr ''2025-11-06T12:00:00.000Z'') \<and>
   map_of (build_fieldData (example_env store_accepts) ''2025-11-06T12:00:00.000Z''
             [''title'' \<mapsto> JStr ''Hello''] ''<p>Hi</p>'') ''name'' =
   map_of (build_fieldData (example_env (store_refuses 503 ''Service Unavailable'')) ''2025-11-07T12:00:00.000Z''
             [''title'' \<mapsto> JStr ''Hello''] ''<p>Hi</p>'') ''name''"
proof -
  let ?env1 = "example_env store_accepts"
  let ?env2 = "example_env (store_refuses 503 ''Service Unavailable'')"
  have same: "REPO ?env1 = REPO ?env2" "COMMIT_SHA ?env1 = COMMIT_SHA ?env2"
    "date_string ?env1 = date_string ?env2" "date_iso ?env1 = date_iso ?env2"
    by (simp_all add: example_env_def)
  have d: "truthy (get [''title'' \<mapsto> JStr ''Hello'', ''date'' \<mapsto> JStr ''2025-01-01''] ''date'')"
    and nd: "\<not> truthy (get [''title'' \<mapsto> JStr ''Hello''] ''date'')"
    and k: "''name'' \<noteq> fid_publishDate FIELD_IDS"
    by (simp_all add: get_def FIELD_IDS_def)
  from mapping_reads_clock_only_without_date
         [OF same, of "[''title'' \<mapsto> JStr ''Hello'', ''date'' \<mapsto> JStr ''2025-01-01'']"
             "''2025-11-06T12:00:00.000Z''" "''<p>Hi</p>''" "''2025-11-07T12:00:00.000Z''"] d
  have one: "build_payload ?env1 ''2025-11-06T12:00:00.000Z''
      [''title'' \<mapsto> JStr ''Hello'', ''date'' \<mapsto> JStr ''2025-01-01''] ''<p>Hi</p>'' =
     build_payload ?env2 ''2025-11-07T12:00:00.000Z''
      [''title'' \<mapsto> JStr ''Hello'', ''date'' \<mapsto> JStr ''2025-01-01''] ''<p>Hi</p>''"
    by blast
  from mapping_reads_clock_only_without_date
         [OF same, of "[''title'' \<mapsto> JStr ''Hello'']"
             "''2025-11-06T12:00:00.000Z''" "''<p>Hi</p>''" "''2025-11-07T12:00:00.000Z''"
             "''2025-11-06T12:00:00.000Z''" "''name''"] nd k
  have two: "map_of (build_fieldData ?env1 ''2025-11-06T12:00:00.000Z''
             [''title'' \<mapsto> JStr ''Hello''] ''<p>Hi</p>'') (fid_publishDate FIELD_IDS) =
     Some (JStr ''2025-11-06T12:00:00.000Z'')"
    and three: "map_of (build_fieldData ?env1 ''2025-11-06T12:00:00.000Z''
             [''title'' \<mapsto> JStr ''Hello''] ''<p>Hi</p>'') ''name'' =
       map_of (build_fieldData ?env2 ''2025-11-07T12:00:00.000Z''
             [''title'' \<mapsto> JStr ''Hello''] ''<p>Hi</p>'') ''name''"
    by blast+
  show ?thesis using one two three by blast
qed

text \<open>
  The claim as stated (no dependence on the current time) fails: the same document
  without a \<open>date\<close>, mapped at two different times, gives two different payloads.
\<close>

theorem mapping_depends_on_clock_counterexample:
  "build_payload (example_env store_accepts) ''2025-11-06T12:00:00.000Z''
      [''title'' \<mapsto> JStr ''Hello''] ''<p>Hi</p>'' \<noteq>
   build_payload (example_env store_accepts) ''2025-11-07T12:00:00.000Z''
      [''title'' \<mapsto> JStr ''Hello''] ''<p>Hi</p>''"
proof
  let ?env = "example_env store_accepts"
  let ?fm = "[''title'' \<mapsto> JStr ''Hello'']"
  assume "build_payload ?env ''2025-11-06T12:00:00.000Z'' ?fm ''<p>Hi</p>'' =
          build_payload ?env ''2025-11-07T12:00:00.000Z'' ?fm ''<p>Hi</p>''"
  then have "build_fieldData ?env ''2025-11-06T12:00:00.000Z'' ?fm ''<p>Hi</p>'' =
             build_fieldData ?env ''2025-11-07T12:00:00.000Z'' ?fm ''<p>Hi</p>''"
    by (simp add: build_payload_def publishDate_def get_def)
  then have "map_of (build_fieldData ?env ''2025-11-06T12:00:00.000Z'' ?fm ''<p>Hi</p>'') ''publish-date'' =
             map_of (build_fieldData ?env ''2025-11-07T12:00:00.000Z'' ?fm ''<p>Hi</p>'') ''publish-date''"
    by simp
  then show False
    by (simp add: build_fieldData_lookup)
qed

end
